theory Spec2Isabelle
  imports Complex_Main "HOL-Library.AList" "HOL-Library.Multiset"
begin

section \<open>Python strings\<close>

text \<open>
  A Python \<^verbatim>\<open>str\<close> is a sequence of Unicode code points, so a text that comes from the
  platform (a comment body, a title, a community name, a permalink, an exception message)
  is a list of code points. \<open>str\<close> reads an ASCII literal of the program as such a list.

  The character tables are the ones of CPython 3 on the ASCII range: \<open>isalnum\<close> is
  \<^verbatim>\<open>str.isalnum\<close>, \<open>isspace\<close> is \<^verbatim>\<open>str.isspace\<close> (the class \<^verbatim>\<open>\s\<close> of a
  \<^verbatim>\<open>str\<close> pattern and the separators of \<^verbatim>\<open>str.split()\<close>; its table is the complete
  one), \<open>isword\<close> is the class \<^verbatim>\<open>\w\<close> of a \<^verbatim>\<open>str\<close> pattern, which is
  \<^verbatim>\<open>isalnum\<close> or the underscore. A code point from 128 up is taken to be caseless and
  not alphanumeric: that is what Python does for symbols and for the emoji the program
  names (U+1F602, U+1F60A, U+2764, U+FE0F), and not for accented or non-Latin letters.
  The theorems below are therefore about ASCII text with symbols and emoji.
\<close>

type_synonym pystr = "nat list"

definition str :: "string \<Rightarrow> pystr" where
  "str s = map of_char s"

definition isupper :: "nat \<Rightarrow> bool" where
  "isupper c = (65 \<le> c \<and> c \<le> 90)"

definition isalnum :: "nat \<Rightarrow> bool" where
  "isalnum c = ((48 \<le> c \<and> c \<le> 57) \<or> (65 \<le> c \<and> c \<le> 90) \<or> (97 \<le> c \<and> c \<le> 122))"

definition isspace :: "nat \<Rightarrow> bool" where
  "isspace c = ((9 \<le> c \<and> c \<le> 13) \<or> (28 \<le> c \<and> c \<le> 32) \<or> c = 133 \<or> c = 160
     \<or> c = 5760 \<or> (8192 \<le> c \<and> c \<le> 8202) \<or> c = 8232 \<or> c = 8233 \<or> c = 8239
     \<or> c = 8287 \<or> c = 12288)"

definition isword :: "nat \<Rightarrow> bool" where
  "isword c = (isalnum c \<or> c = 95)"


text \<open>\<^verbatim>\<open>str.lower()\<close>.\<close>

definition lower_cp :: "nat \<Rightarrow> nat" where
  "lower_cp c = (if isupper c then c + 32 else c)"

definition lower :: "pystr \<Rightarrow> pystr" where
  "lower s = map lower_cp s"

text \<open>\<^verbatim>\<open>w in t\<close> on two strings: \<open>w\<close> occurs in \<open>t\<close> as a contiguous run.\<close>

fun startswith :: "pystr \<Rightarrow> pystr \<Rightarrow> bool" where
  "startswith t [] = True"
| "startswith [] (c # w) = False"
| "startswith (d # t) (c # w) = (d = c \<and> startswith t w)"

fun py_in :: "pystr \<Rightarrow> pystr \<Rightarrow> bool" where
  "py_in w [] = (w = [])"
| "py_in w (c # t) = (startswith (c # t) w \<or> py_in w t)"

text \<open>\<^verbatim>\<open>any(w in text for w in ws)\<close>.\<close>

definition any_in :: "pystr list \<Rightarrow> pystr \<Rightarrow> bool" where
  "any_in ws text = list_ex (\<lambda>w. py_in w text) ws"

text \<open>\<^verbatim>\<open>t.split()\<close>: the maximal runs of characters that are not whitespace. The first
  argument of \<open>split_from\<close> is the run read so far.\<close>

fun split_from :: "pystr \<Rightarrow> pystr \<Rightarrow> pystr list" where
  "split_from w [] = (if w = [] then [] else [w])"
| "split_from w (c # t) =
     (if isspace c then (if w = [] then split_from [] t else w # split_from [] t)
      else split_from (w @ [c]) t)"

definition py_split :: "pystr \<Rightarrow> pystr list" where
  "py_split t = split_from [] t"

section \<open>Text normalizer\<close>

text \<open>
  \<^verbatim>\<open>_clean_text\<close> of \<^verbatim>\<open>persona_spez.py\<close> and \<^verbatim>\<open>clean_text\<close> of
  \<^verbatim>\<open>reddit_persona.py\<close> are the same expression,
  \<^verbatim>\<open>re.sub(r'[^\w\s]', '', text.lower())\<close>: every character outside the classes
  \<^verbatim>\<open>\w\<close> and \<^verbatim>\<open>\s\<close> is replaced by nothing.
\<close>

definition clean_text :: "pystr \<Rightarrow> pystr" where
  "clean_text text = filter (\<lambda>c. isword c \<or> isspace c) (lower text)"

section \<open>Values, exceptions and dictionaries\<close>

text \<open>
  A value stored in a result dictionary. The labels and the dictionary keys are ASCII
  literals of the program and are kept as Isabelle strings. A \<^verbatim>\<open>datetime\<close> is kept as
  the timestamp it was made from: \<^verbatim>\<open>datetime.fromtimestamp\<close> and the rendering of a
  date are read in UTC and are not modelled further.
\<close>

datatype val = PyInt int | PyFloat rat | PyStr string | PyDatetime int

text \<open>
  A raised \<^verbatim>\<open>Exception\<close> is the left summand, carrying \<^verbatim>\<open>str(e)\<close>. The quotient
  \<^verbatim>\<open>a / b\<close> of two integers raises \<^verbatim>\<open>ZeroDivisionError\<close> when \<open>b\<close> is zero. Its
  value is the exact rational: Python rounds it to a double, which compares with 75 and
  with 40 as the rational does for every quotient with a denominator below \<open>2^47\<close>.
\<close>

definition truediv :: "int \<Rightarrow> int \<Rightarrow> pystr + rat" where
  "truediv a b = (if b = 0 then Inl (str ''division by zero'') else Inr (of_int a / of_int b))"

text \<open>\<^verbatim>\<open>sum(1 for t in texts if P(t))\<close>.\<close>

definition count_if :: "('a \<Rightarrow> bool) \<Rightarrow> 'a list \<Rightarrow> int" where
  "count_if P xs = int (length (filter P xs))"

text \<open>
  A dictionary keeps its keys in insertion order: it is an association list with distinct
  keys, and \<^verbatim>\<open>d[k] = v\<close> is \<^const>\<open>AList.update\<close>. \<open>incr\<close> is \<^verbatim>\<open>d[k] += 1\<close> on a
  \<^verbatim>\<open>defaultdict(int)\<close> and \<open>append_at\<close> is \<^verbatim>\<open>d[k].append(v)\<close> on a
  \<^verbatim>\<open>defaultdict(list)\<close>.
\<close>

definition incr :: "('k \<times> int) list \<Rightarrow> 'k \<Rightarrow> ('k \<times> int) list" where
  "incr d k = AList.update k ((case map_of d k of None \<Rightarrow> 0 | Some n \<Rightarrow> n) + 1) d"

definition append_at :: "('k \<times> 'v list) list \<Rightarrow> 'k \<Rightarrow> 'v \<Rightarrow> ('k \<times> 'v list) list" where
  "append_at d k v = AList.update k ((case map_of d k of None \<Rightarrow> [] | Some l \<Rightarrow> l) @ [v]) d"

text \<open>\<^verbatim>\<open>sorted(items, key=lambda x: x[1], reverse=True)\<close>: Python reverses the list, sorts
  it stably in ascending order and reverses the result.\<close>

definition sorted_reverse :: "('k \<times> int) list \<Rightarrow> ('k \<times> int) list" where
  "sorted_reverse items = rev (sort_key snd (rev items))"

section \<open>Style analyzer\<close>

definition emojis :: "pystr list" where
  "emojis = [[128514], [128522], [10084, 65039]]"

text \<open>\<^verbatim>\<open>analyze_writing_style\<close> of \<^verbatim>\<open>persona_spez.py\<close>.\<close>

definition analyze_writing_style :: "pystr list \<Rightarrow> pystr + (string \<times> val) list" where
  "analyze_writing_style texts =
     (if texts = [] then
        Inr [(''Description'', PyStr ''No text available''),
             (''Average Word Count'', PyInt 0),
             (''Emoji Usage'', PyInt 0),
             (''Formality Score'', PyInt 0),
             (''Readability'', PyStr ''N/A'')]
      else
        let total_words = sum_list (map (\<lambda>t. int (length (py_split t))) texts) in
        case truediv total_words (int (length texts)) of
          Inl e \<Rightarrow> Inl e
        | Inr avg_word_count \<Rightarrow>
            let emoji_usage = count_if (\<lambda>t. any_in emojis t) texts;
                formality_score =
                  count_if (\<lambda>t. any_in [str ''however'', str ''therefore'', str ''moreover'']
                                   (clean_text t)) texts;
                style = [(''Average Word Count'', PyFloat avg_word_count),
                         (''Emoji Usage'', PyInt emoji_usage),
                         (''Formality Score'', PyInt formality_score),
                         (''Question Frequency'', PyInt (count_if (\<lambda>t. py_in (str ''?'') t) texts)),
                         (''Exclamation Frequency'', PyInt (count_if (\<lambda>t. py_in (str ''!'') t) texts))]
            in Inr (AList.update ''Description''
                      (PyStr (if avg_word_count > 75 then ''Detailed and analytical''
                              else if avg_word_count > 40 then ''Balanced and thoughtful''
                              else if emoji_usage > 3 then ''Casual and expressive''
                              else if formality_score > 5 then ''Formal and structured''
                              else ''Straightforward and concise''))
                      style))"

text \<open>\<^verbatim>\<open>analyze_writing_style\<close> of \<^verbatim>\<open>reddit_persona.py\<close>.\<close>

definition analyze_writing_style_app :: "pystr list \<Rightarrow> pystr + (string \<times> val) list" where
  "analyze_writing_style_app texts =
     (if texts = [] then Inr [(''Description'', PyStr ''No text available'')]
      else
        case truediv (sum_list (map (\<lambda>t. int (length (py_split t))) texts)) (int (length texts)) of
          Inl e \<Rightarrow> Inl e
        | Inr avg_word_count \<Rightarrow>
            let emoji_use = count_if (\<lambda>t. any_in emojis t) texts;
                formality =
                  count_if (\<lambda>t. any_in [str ''however'', str ''therefore''] (clean_text t)) texts;
                metrics = [(''avg_word_count'', PyFloat avg_word_count),
                           (''emoji_use'', PyInt emoji_use),
                           (''formality'', PyInt formality)]
            in Inr (AList.update ''style''
                      (PyStr (if avg_word_count > 75 then ''Detailed/analytical''
                              else if emoji_use > 3 then ''Casual/expressive''
                              else ''Straightforward''))
                      metrics))"

section \<open>Interest and trait classifiers\<close>

definition interest_keywords :: "(string \<times> pystr list) list" where
  "interest_keywords =
     [(''Technology'', [str ''python'', str ''programming'', str ''javascript'', str ''linux'', str ''github'']),
      (''Gaming'', [str ''game'', str ''gaming'', str ''playstation'', str ''xbox'', str ''nintendo'']),
      (''Sports'', [str ''football'', str ''basketball'', str ''soccer'', str ''nba'', str ''nfl'']),
      (''Movies/TV'', [str ''movie'', str ''netflix'', str ''marvel'', str ''star wars'', str ''tv show'']),
      (''Science'', [str ''space'', str ''physics'', str ''biology'', str ''research'', str ''astronomy''])]"

text \<open>\<^verbatim>\<open>detect_interests\<close> of \<^verbatim>\<open>persona_spez.py\<close>: the loop over the items of the
  dictionary appends, in the dictionary's order, each category with a keyword in the text.\<close>

definition detect_interests :: "pystr \<Rightarrow> string list" where
  "detect_interests text0 =
     (let text = clean_text text0
      in map fst (filter (\<lambda>(category, keywords). any_in keywords text) interest_keywords))"

definition trait_keywords :: "(string \<times> pystr list) list" where
  "trait_keywords =
     [(''Opinionated'', [str ''i think'', str ''in my opinion'', str ''i believe'']),
      (''Humorous'', [str ''lol'', str ''haha'', str ''funny'', str ''joke'']),
      (''Helpful'', [str ''help'', str ''advice'', str ''suggestion'']),
      (''Curious'', [str ''why'', str ''how'', str ''explain''])]"

text \<open>\<^verbatim>\<open>detect_personality_traits\<close>: four \<^verbatim>\<open>if\<close> statements in a row, each appending
  its label; \<open>trait_keywords\<close> lists their labels and word lists in that order.\<close>

definition detect_personality_traits :: "pystr \<Rightarrow> string list" where
  "detect_personality_traits text0 =
     (let text = clean_text text0
      in (if any_in [str ''i think'', str ''in my opinion'', str ''i believe''] text
          then [''Opinionated''] else [])
       @ (if any_in [str ''lol'', str ''haha'', str ''funny'', str ''joke''] text
          then [''Humorous''] else [])
       @ (if any_in [str ''help'', str ''advice'', str ''suggestion''] text
          then [''Helpful''] else [])
       @ (if any_in [str ''why'', str ''how'', str ''explain''] text
          then [''Curious''] else []))"

text \<open>\<^verbatim>\<open>detect_interests\<close> of \<^verbatim>\<open>reddit_persona.py\<close>.\<close>

definition categories_app :: "(string \<times> pystr list) list" where
  "categories_app =
     [(''Technology'', [str ''python'', str ''programming'', str ''javascript'']),
      (''Gaming'', [str ''game'', str ''gaming'', str ''playstation'']),
      (''Sports'', [str ''football'', str ''basketball'', str ''soccer''])]"

definition detect_interests_app :: "pystr \<Rightarrow> string list" where
  "detect_interests_app text0 =
     (let text = clean_text text0
      in map fst (filter (\<lambda>(cat, terms). any_in terms text) categories_app))"

section \<open>The content source\<close>

text \<open>
  What the program reads of a comment and of a submission, and the answers of the
  platform client for one user. \<open>comments_new user n\<close> is
  \<^verbatim>\<open>list(user.comments.new(limit=n))\<close> and \<open>submissions_new user n\<close> is
  \<^verbatim>\<open>list(user.submissions.new(limit=n))\<close>; \<open>created_utc\<close>, \<open>comment_karma\<close> and
  \<open>link_karma\<close> are the attributes of the user, which the client loads from the platform
  when they are read. Each of them either raises an exception (\<open>Inl\<close> its message) or
  returns. A \<open>reddit\<close> is the client: \<^verbatim>\<open>reddit.redditor(username)\<close>.
\<close>

record comment =
  c_body :: pystr
  c_created_utc :: int
  c_subreddit :: pystr
  c_permalink :: pystr

record submission =
  p_title :: pystr
  p_created_utc :: int
  p_subreddit :: pystr
  p_permalink :: pystr

record redditor =
  comments_new :: "nat \<Rightarrow> pystr + comment list"
  submissions_new :: "nat \<Rightarrow> pystr + submission list"
  created_utc :: "pystr + int"
  comment_karma :: "pystr + int"
  link_karma :: "pystr + int"

type_synonym reddit = "pystr \<Rightarrow> pystr + redditor"

section \<open>Persona assembly, console program\<close>

record activity_summary =
  Total_Comments :: int
  Total_Posts :: int
  Comment_Karma :: int
  Post_Karma :: int
  First_Seen :: val

record persona =
  Username :: pystr
  Account_Age :: int
  Writing_Style :: "(string \<times> val) list"
  Preferred_Subreddits :: "(pystr \<times> int) list"
  Interests_Hobbies :: "(string \<times> pystr list) list"
  Personality_Traits :: "(string \<times> pystr list) list"
  Activity_Summary :: activity_summary
  Citations_Comments :: "pystr list"
  Citations_Posts :: "pystr list"

text \<open>
  The dictionary a \<^verbatim>\<open>generate_persona\<close> returns: \<^verbatim>\<open>{"error": message}\<close>, with that
  one key, or the persona. Both programs wrap the whole body in
  \<^verbatim>\<open>try ... except Exception as e: return {"error": str(e)}\<close>, so an exception at any
  step ends the run with the error dictionary: \<open>attempt r k\<close> is one step \<open>r\<close> of the
  body followed by the rest \<open>k\<close> of it.
\<close>

datatype 'p report = Error pystr | Persona 'p

definition attempt :: "pystr + 'a \<Rightarrow> ('a \<Rightarrow> 'p report) \<Rightarrow> 'p report" where
  "attempt r k = (case r of Inl e \<Rightarrow> Error e | Inr x \<Rightarrow> k x)"

text \<open>\<^verbatim>\<open>min(datetime.fromtimestamp(c.created_utc) for c in comments) if comments else "N/A"\<close>.\<close>

definition first_seen :: "comment list \<Rightarrow> val" where
  "first_seen comments =
     (case map c_created_utc comments of
        [] \<Rightarrow> PyStr ''N/A''
      | t # ts \<Rightarrow> PyDatetime (fold min ts t))"

text \<open>The body of the loop \<^verbatim>\<open>for comment in comments\<close> of \<^verbatim>\<open>generate_persona\<close>.\<close>

definition analyze_comment :: "comment \<Rightarrow> persona \<Rightarrow> persona" where
  "analyze_comment c persona =
     (let p1 = persona\<lparr>Preferred_Subreddits := incr (Preferred_Subreddits persona) (c_subreddit c)\<rparr>;
          p2 = fold (\<lambda>interest p.
                       p\<lparr>Interests_Hobbies := append_at (Interests_Hobbies p) interest (c_permalink c)\<rparr>)
                    (detect_interests (c_body c)) p1
      in fold (\<lambda>trait p.
                 p\<lparr>Personality_Traits := append_at (Personality_Traits p) trait (c_permalink c)\<rparr>)
              (detect_personality_traits (c_body c)) p2)"

text \<open>\<^verbatim>\<open>generate_persona\<close> of \<^verbatim>\<open>persona_spez.py\<close>, its steps in the order the
  program evaluates them.\<close>

definition generate_persona :: "reddit \<Rightarrow> pystr \<Rightarrow> persona report" where
  "generate_persona reddit username =
     attempt (reddit username) (\<lambda>user.
     attempt (comments_new user 100) (\<lambda>comments.
     attempt (submissions_new user 100) (\<lambda>posts.
       if comments = [] \<and> posts = [] then Error (str ''No public activity found'')
       else
         let all_texts = map c_body comments @ map p_title posts in
         attempt (created_utc user) (\<lambda>created.
         attempt (analyze_writing_style all_texts) (\<lambda>style.
         attempt (comment_karma user) (\<lambda>ckarma.
         attempt (link_karma user) (\<lambda>lkarma.
           Persona (fold analyze_comment comments
             \<lparr>Username = str ''u/'' @ username,
              Account_Age = created,
              Writing_Style = style,
              Preferred_Subreddits = [],
              Interests_Hobbies = [],
              Personality_Traits = [],
              Activity_Summary =
                \<lparr>Total_Comments = int (length comments),
                 Total_Posts = int (length posts),
                 Comment_Karma = ckarma,
                 Post_Karma = lkarma,
                 First_Seen = first_seen comments\<rparr>,
              Citations_Comments = map c_permalink (take 3 comments),
              Citations_Posts = map p_permalink (take 3 posts)\<rparr>))))))))"

text \<open>The local \<^verbatim>\<open>top_subs\<close> of \<^verbatim>\<open>format_output\<close>, which the report lists under
  its heading of community activity:
  \<^verbatim>\<open>sorted(persona["Preferred Subreddits"].items(), key=lambda x: x[1], reverse=True)[:5]\<close>.\<close>

definition top_subs :: "persona \<Rightarrow> (pystr \<times> int) list" where
  "top_subs persona = take 5 (sorted_reverse (Preferred_Subreddits persona))"

section \<open>Persona assembly, dashboard program\<close>

record persona_app =
  username :: pystr
  account_age :: int
  post_karma :: int
  comment_karma_app :: int
  writing_style :: "(string \<times> val) list"
  interests :: "string set"
  traits :: "string list"
  subreddit_activity :: "(pystr \<times> int) list"
  activity_hours :: "int list"
  sample_comments :: "pystr list"
  sample_posts :: "pystr list"

text \<open>\<^verbatim>\<open>Counter(xs)\<close> counts in the order of first occurrence, and
  \<^verbatim>\<open>Counter.most_common(n)\<close> is \<^verbatim>\<open>sorted(items, key=itemgetter(1), reverse=True)[:n]\<close>.\<close>

definition Counter :: "'k list \<Rightarrow> ('k \<times> int) list" where
  "Counter xs = fold (\<lambda>x d. incr d x) xs []"

definition most_common :: "nat \<Rightarrow> ('k \<times> int) list \<Rightarrow> ('k \<times> int) list" where
  "most_common n d = take n (sorted_reverse d)"

text \<open>
  \<^verbatim>\<open>generate_persona\<close> of \<^verbatim>\<open>reddit_persona.py\<close>. \<^verbatim>\<open>list(set(...))\<close> has no order
  the program decides, so the interests are a set; the hour of a timestamp is read in UTC.
\<close>

definition generate_persona_app :: "reddit \<Rightarrow> pystr \<Rightarrow> persona_app report" where
  "generate_persona_app reddit uname =
     attempt (reddit uname) (\<lambda>user.
     attempt (comments_new user 100) (\<lambda>comments.
     attempt (submissions_new user 100) (\<lambda>posts.
       if comments = [] \<and> posts = [] then Error (str ''No public activity found'')
       else
         let all_texts = map c_body comments @ map p_title posts;
             subreddits = map c_subreddit comments @ map p_subreddit posts in
         attempt (created_utc user) (\<lambda>created.
         attempt (link_karma user) (\<lambda>lkarma.
         attempt (comment_karma user) (\<lambda>ckarma.
         attempt (analyze_writing_style_app all_texts) (\<lambda>style.
           Persona
             \<lparr>username = str ''u/'' @ uname,
              account_age = created,
              post_karma = lkarma,
              comment_karma_app = ckarma,
              writing_style = style,
              interests = set (concat (map detect_interests_app all_texts)),
              traits = (if list_ex (\<lambda>t. py_in (str ''i think'') (clean_text t)) all_texts
                        then [''Opinionated''] else []),
              subreddit_activity = most_common 10 (Counter subreddits),
              activity_hours = map (\<lambda>c. (c_created_utc c div 3600) mod 24) comments,
              sample_comments = map (\<lambda>c. take 200 (c_body c) @ str ''...'') (take 3 comments),
              sample_posts = map p_title (take 3 posts)\<rparr>)))))))"

section \<open>The claims as the specification words them\<close>


section \<open>Scenarios\<close>

text \<open>Concrete users for the examples below. \<open>only user\<close> is a client that answers
  every name with \<open>user\<close>.\<close>

definition only :: "redditor \<Rightarrow> reddit" where
  "only user = (\<lambda>name. Inr user)"

definition hello_post :: submission where
  "hello_post = \<lparr>p_title = str ''Hello'', p_created_utc = 1700000000,
                  p_subreddit = str ''test'', p_permalink = str ''/r/test/1''\<rparr>"

definition vanished_user :: redditor where
  "vanished_user = \<lparr>comments_new = \<lambda>n. Inr [], submissions_new = \<lambda>n. Inr [],
                     created_utc = Inl (str ''suspended''), comment_karma = Inr 12,
                     link_karma = Inr 7\<rparr>"

definition poster :: redditor where
  "poster = \<lparr>comments_new = \<lambda>n. Inr [], submissions_new = \<lambda>n. Inr [hello_post],
              created_utc = Inr 1600000000, comment_karma = Inr 0, link_karma = Inr 1\<rparr>"

definition hello_comment :: comment where
  "hello_comment = \<lparr>c_body = str ''I think so'', c_created_utc = 1650000000,
                     c_subreddit = str ''test'', c_permalink = str ''/r/test/2''\<rparr>"

definition timed_out_user :: redditor where
  "timed_out_user = \<lparr>comments_new = \<lambda>n. Inr [hello_comment], submissions_new = \<lambda>n. Inr [hello_post],
                      created_utc = Inr 1600000000, comment_karma = Inr 3,
                      link_karma = Inl (str ''timed out'')\<rparr>"

definition unreadable_poster :: redditor where
  "unreadable_poster = poster\<lparr>created_utc := Inl (str ''received 404 HTTP response'')\<rparr>"

text \<open>\<open>a_words n\<close> is a text of \<open>n\<close> words; \<open>long_text\<close> has 80 words, the last one
  the emoji U+1F602.\<close>

definition a_words :: "nat \<Rightarrow> pystr" where
  "a_words n = concat (replicate n (str ''a ''))"

definition long_text :: pystr where
  "long_text = a_words 79 @ [128514]"

definition batch_80_5 :: "pystr list" where
  "batch_80_5 = [long_text, long_text, long_text, long_text, long_text]"

definition batch_41 :: "pystr list" where
  "batch_41 = [a_words 41]"

text \<open>The two comments of scenario B of the specification, and a user who wrote them.\<close>

definition text_b1 :: pystr where
  "text_b1 = str (''I think Python is great, however it'' @ [CHR 0x27] @ ''s slow'')"

definition text_b2 :: pystr where
  "text_b2 = str (''lol that'' @ [CHR 0x27] @ ''s hilarious'')"

definition comment_b1 :: comment where
  "comment_b1 = \<lparr>c_body = text_b1, c_created_utc = 1650000000,
                  c_subreddit = str ''test'', c_permalink = str ''/r/test/b1''\<rparr>"

definition comment_b2 :: comment where
  "comment_b2 = \<lparr>c_body = text_b2, c_created_utc = 1660000000,
                  c_subreddit = str ''other'', c_permalink = str ''/r/other/b2''\<rparr>"

definition user_b :: redditor where
  "user_b = \<lparr>comments_new = \<lambda>n. Inr [comment_b1, comment_b2], submissions_new = \<lambda>n. Inr [],
              created_utc = Inr 1600000000, comment_karma = Inr 10, link_karma = Inr 0\<rparr>"

text \<open>Scenario C of the specification: a user with one comment in \<^verbatim>\<open>other\<close>, then three in
  \<^verbatim>\<open>test\<close>.\<close>

definition comment_in :: "pystr \<Rightarrow> comment" where
  "comment_in sub = \<lparr>c_body = str ''I think so'', c_created_utc = 1650000000,
                     c_subreddit = sub, c_permalink = str ''/r/x/1''\<rparr>"

definition user_c :: redditor where
  "user_c = \<lparr>comments_new = \<lambda>n. Inr [comment_in (str ''other''), comment_in (str ''test''),
                                       comment_in (str ''test''), comment_in (str ''test'')],
              submissions_new = \<lambda>n. Inr [],
              created_utc = Inr 1600000000, comment_karma = Inr 4, link_karma = Inr 0\<rparr>"

section \<open>Characters and the normalizer\<close>









section \<open>The style analyzer never raises\<close>

lemma truediv_returns: "b \<noteq> 0 \<Longrightarrow> truediv a b = Inr (of_int a / of_int b)"
  by (simp add: truediv_def)

lemma analyze_writing_style_returns:
  "texts \<noteq> [] \<Longrightarrow> \<exists>d. analyze_writing_style texts = Inr d"
  by (simp add: analyze_writing_style_def truediv_returns Let_def)

lemma analyze_writing_style_app_returns:
  "texts \<noteq> [] \<Longrightarrow> \<exists>d. analyze_writing_style_app texts = Inr d"
  by (simp add: analyze_writing_style_app_def truediv_returns Let_def)

lemma attempt_Inl: "attempt (Inl e) k = Error e"
  by (simp add: attempt_def)

lemma attempt_Inr: "attempt (Inr x) k = k x"
  by (simp add: attempt_def)

section \<open>Empty input and failures\<close>

text \<open>
  C6: on an empty sequence of texts the style analyzer returns the sentinel whose
  description is \<^verbatim>\<open>No text available\<close>, with the metrics zero (console program) or
  absent (dashboard program); the keys of the metric branch are not in it, and the
  division of that branch, which would raise on the empty sequence, is not evaluated.
\<close>

theorem empty_batch_sentinel:
  "analyze_writing_style [] =
     Inr [(''Description'', PyStr ''No text available''),
          (''Average Word Count'', PyInt 0),
          (''Emoji Usage'', PyInt 0),
          (''Formality Score'', PyInt 0),
          (''Readability'', PyStr ''N/A'')]
   \<and> analyze_writing_style_app [] = Inr [(''Description'', PyStr ''No text available'')]
   \<and> truediv (sum_list (map (\<lambda>t. int (length (py_split t))) [])) (int (length ([] :: pystr list)))
       = Inl (str ''division by zero'')"
  by (simp add: analyze_writing_style_def analyze_writing_style_app_def truediv_def)

text \<open>
  C2: when the fetched list of comments and the fetched list of submissions are both empty,
  \<^verbatim>\<open>generate_persona\<close> returns the error dictionary with the message
  \<^verbatim>\<open>No public activity found\<close>, whatever the account metadata is or would do: the
  premises say nothing about \<open>created_utc\<close>, \<open>comment_karma\<close> and \<open>link_karma\<close>.
\<close>

theorem no_activity_error:
  assumes "reddit name = Inr user"
    and "comments_new user 100 = Inr []"
    and "submissions_new user 100 = Inr []"
  shows "generate_persona reddit name = Error (str ''No public activity found'')
       \<and> generate_persona_app reddit name = Error (str ''No public activity found'')"
  using assms by (simp add: generate_persona_def generate_persona_app_def attempt_Inr)

theorem no_activity_error_witness:
  "generate_persona (only vanished_user) (str ''nobody'') = Error (str ''No public activity found'')
   \<and> generate_persona_app (only vanished_user) (str ''nobody'')
       = Error (str ''No public activity found'')"
  using no_activity_error [of "only vanished_user" "str ''nobody''" vanished_user]
  by (simp add: only_def vanished_user_def)

lemma generate_persona_after_fetch:
  assumes "reddit name = Inr user"
    and "comments_new user 100 = Inr cs"
    and "submissions_new user 100 = Inr ps"
    and "cs \<noteq> [] \<or> ps \<noteq> []"
    and "analyze_writing_style (map c_body cs @ map p_title ps) = Inr d"
  shows "generate_persona reddit name =
     attempt (created_utc user) (\<lambda>created.
     attempt (comment_karma user) (\<lambda>ckarma.
     attempt (link_karma user) (\<lambda>lkarma.
       Persona (fold analyze_comment cs
         \<lparr>Username = str ''u/'' @ name,
          Account_Age = created,
          Writing_Style = d,
          Preferred_Subreddits = [],
          Interests_Hobbies = [],
          Personality_Traits = [],
          Activity_Summary =
            \<lparr>Total_Comments = int (length cs),
             Total_Posts = int (length ps),
             Comment_Karma = ckarma,
             Post_Karma = lkarma,
             First_Seen = first_seen cs\<rparr>,
          Citations_Comments = map c_permalink (take 3 cs),
          Citations_Posts = map p_permalink (take 3 ps)\<rparr>))))"
proof -
  from assms(4) have n: "\<not> (cs = [] \<and> ps = [])"
    by blast
  show ?thesis
    unfolding generate_persona_def Let_def
    by (simp only: assms(1-3,5) attempt_Inr n if_False)
qed

text \<open>
  C10, as stated, fails: a user with one submission and no comment whose creation
  timestamp cannot be read gets the error dictionary.
\<close>

theorem posts_only_metadata_failure:
  "comments_new unreadable_poster 100 = Inr []
   \<and> submissions_new unreadable_poster 100 = Inr [hello_post]
   \<and> generate_persona (only unreadable_poster) (str ''someone'')
       = Error (str ''received 404 HTTP response'')"
  by (simp add: generate_persona_def attempt_def only_def unreadable_poster_def poster_def)

text \<open>
  C10, amended: if the fetch returns at least one submission and no comment, and the reads
  of the account metadata return, then \<^verbatim>\<open>generate_persona\<close> of the console program
  returns a persona whose \<^verbatim>\<open>First Seen\<close> is the string \<^verbatim>\<open>N/A\<close>.
\<close>

theorem posts_only_first_seen:
  assumes "reddit name = Inr user"
    and "comments_new user 100 = Inr []"
    and "submissions_new user 100 = Inr ps" and "ps \<noteq> []"
    and "created_utc user = Inr created"
    and "comment_karma user = Inr ckarma"
    and "link_karma user = Inr lkarma"
  shows "\<exists>p. generate_persona reddit name = Persona p
           \<and> First_Seen (Activity_Summary p) = PyStr ''N/A''
           \<and> Total_Comments (Activity_Summary p) = 0
           \<and> Total_Posts (Activity_Summary p) = int (length ps)"
proof -
  from \<open>ps \<noteq> []\<close> obtain d where "analyze_writing_style (map c_body [] @ map p_title ps) = Inr d"
    using analyze_writing_style_returns [of "map c_body [] @ map p_title ps"] by auto
  with assms show ?thesis
    by (simp add: generate_persona_after_fetch [where cs = "[]" and ps = ps] attempt_Inr first_seen_def)
qed

theorem posts_only_first_seen_witness:
  "\<exists>p. generate_persona (only poster) (str ''someone'') = Persona p
       \<and> First_Seen (Activity_Summary p) = PyStr ''N/A''
       \<and> Total_Comments (Activity_Summary p) = 0
       \<and> Total_Posts (Activity_Summary p) = 1"
  using posts_only_first_seen [of "only poster" "str ''someone''" poster "[hello_post]" 1600000000 0 1]
  by (simp add: only_def poster_def)

lemma generate_persona_app_after_fetch:
  assumes "reddit name = Inr user"
    and "comments_new user 100 = Inr cs"
    and "submissions_new user 100 = Inr ps"
    and "cs \<noteq> [] \<or> ps \<noteq> []"
  shows "generate_persona_app reddit name =
     attempt (created_utc user) (\<lambda>created.
     attempt (link_karma user) (\<lambda>lkarma.
     attempt (comment_karma user) (\<lambda>ckarma.
     attempt (analyze_writing_style_app (map c_body cs @ map p_title ps)) (\<lambda>style.
       Persona
         \<lparr>username = str ''u/'' @ name,
          account_age = created,
          post_karma = lkarma,
          comment_karma_app = ckarma,
          writing_style = style,
          interests = set (concat (map detect_interests_app (map c_body cs @ map p_title ps))),
          traits = (if list_ex (\<lambda>t. py_in (str ''i think'') (clean_text t))
                         (map c_body cs @ map p_title ps)
                    then [''Opinionated''] else []),
          subreddit_activity = most_common 10 (Counter (map c_subreddit cs @ map p_subreddit ps)),
          activity_hours = map (\<lambda>c. (c_created_utc c div 3600) mod 24) cs,
          sample_comments = map (\<lambda>c. take 200 (c_body c) @ str ''...'') (take 3 cs),
          sample_posts = map p_title (take 3 ps)\<rparr>))))"
proof -
  from assms(4) have n: "\<not> (cs = [] \<and> ps = [])"
    by blast
  show ?thesis
    unfolding generate_persona_app_def Let_def
    by (simp only: assms(1-3) attempt_Inr n if_False)
qed

text \<open>
  C8: an exception raised by any call to the platform client that a run makes ends the run
  with the error dictionary carrying the exception's message, in both programs: the
  lookup of the user, the listing of the comments, the listing of the submissions and,
  when there is activity, each read of the account metadata in the order of the program.
  The error dictionary holds the message only, so nothing gathered before the failure
  is returned.
\<close>

theorem source_failure_error:
  "(reddit name = Inl m \<longrightarrow>
      generate_persona reddit name = Error m \<and> generate_persona_app reddit name = Error m)
   \<and> (reddit name = Inr user \<and> comments_new user 100 = Inl m \<longrightarrow>
      generate_persona reddit name = Error m \<and> generate_persona_app reddit name = Error m)
   \<and> (reddit name = Inr user \<and> comments_new user 100 = Inr cs
        \<and> submissions_new user 100 = Inl m \<longrightarrow>
      generate_persona reddit name = Error m \<and> generate_persona_app reddit name = Error m)
   \<and> (reddit name = Inr user \<and> comments_new user 100 = Inr cs
        \<and> submissions_new user 100 = Inr ps \<and> (cs \<noteq> [] \<or> ps \<noteq> []) \<longrightarrow>
        (created_utc user = Inl m \<longrightarrow>
           generate_persona reddit name = Error m \<and> generate_persona_app reddit name = Error m)
      \<and> (created_utc user = Inr created \<and> comment_karma user = Inl m \<longrightarrow>
           generate_persona reddit name = Error m)
      \<and> (created_utc user = Inr created \<and> comment_karma user = Inr ckarma
           \<and> link_karma user = Inl m \<longrightarrow>
           generate_persona reddit name = Error m)
      \<and> (created_utc user = Inr created \<and> link_karma user = Inl m \<longrightarrow>
           generate_persona_app reddit name = Error m)
      \<and> (created_utc user = Inr created \<and> link_karma user = Inr lkarma
           \<and> comment_karma user = Inl m \<longrightarrow>
           generate_persona_app reddit name = Error m))"
proof (intro conjI impI; (elim conjE)?)
  assume "reddit name = Inl m"
  then show "generate_persona reddit name = Error m"
    and "generate_persona_app reddit name = Error m"
    by (simp_all add: generate_persona_def generate_persona_app_def attempt_Inl)
next
  assume "reddit name = Inr user" "comments_new user 100 = Inl m"
  then show "generate_persona reddit name = Error m"
    and "generate_persona_app reddit name = Error m"
    by (simp_all add: generate_persona_def generate_persona_app_def attempt_Inl attempt_Inr)
next
  assume "reddit name = Inr user" "comments_new user 100 = Inr cs"
    "submissions_new user 100 = Inl m"
  then show "generate_persona reddit name = Error m"
    and "generate_persona_app reddit name = Error m"
    by (simp_all add: generate_persona_def generate_persona_app_def attempt_Inl attempt_Inr)
next
  assume f: "reddit name = Inr user" "comments_new user 100 = Inr cs"
    "submissions_new user 100 = Inr ps" "cs \<noteq> [] \<or> ps \<noteq> []"
  then obtain d where d: "analyze_writing_style (map c_body cs @ map p_title ps) = Inr d"
    using analyze_writing_style_returns [of "map c_body cs @ map p_title ps"] by auto
  note g = generate_persona_after_fetch [of reddit name user cs ps d, OF f d]
  note h = generate_persona_app_after_fetch [of reddit name user cs ps, OF f]
  {
    assume "created_utc user = Inl m"
    then show "generate_persona reddit name = Error m"
      and "generate_persona_app reddit name = Error m"
      by (simp_all add: g h attempt_Inl)
  next
    assume "created_utc user = Inr created" "comment_karma user = Inl m"
    then show "generate_persona reddit name = Error m"
      by (simp add: g attempt_Inl attempt_Inr)
  next
    assume "created_utc user = Inr created" "comment_karma user = Inr ckarma"
      "link_karma user = Inl m"
    then show "generate_persona reddit name = Error m"
      by (simp add: g attempt_Inl attempt_Inr)
  next
    assume "created_utc user = Inr created" "link_karma user = Inl m"
    then show "generate_persona_app reddit name = Error m"
      by (simp add: h attempt_Inl attempt_Inr)
  next
    assume "created_utc user = Inr created" "link_karma user = Inr lkarma"
      "comment_karma user = Inl m"
    then show "generate_persona_app reddit name = Error m"
      by (simp add: h attempt_Inl attempt_Inr)
  }
qed

theorem source_failure_error_witness:
  "comments_new timed_out_user 100 = Inr [hello_comment]
   \<and> link_karma timed_out_user = Inl (str ''timed out'')
   \<and> generate_persona (only timed_out_user) (str ''someone'') = Error (str ''timed out'')
   \<and> generate_persona_app (only timed_out_user) (str ''someone'') = Error (str ''timed out'')"
  using source_failure_error [of "only timed_out_user" "str ''someone''" "str ''timed out''"
      timed_out_user "[hello_comment]" "[hello_post]" 1600000000 3]
  by (simp add: only_def timed_out_user_def)

section \<open>Substrings and words\<close>

lemma startswith_iff: "startswith t w \<longleftrightarrow> (\<exists>ss. t = w @ ss)"
  by (induction t w rule: startswith.induct) auto

lemma py_in_iff: "py_in w t \<longleftrightarrow> (\<exists>ps ss. t = ps @ w @ ss)"
proof (induction t)
  case Nil
  show ?case by auto
next
  case (Cons c t)
  have "(\<exists>ps ss. c # t = ps @ w @ ss) \<longleftrightarrow> (\<exists>ss. c # t = w @ ss) \<or> (\<exists>ps ss. t = ps @ w @ ss)"
    by (auto simp: Cons_eq_append_conv)
  with Cons show ?case
    by (simp add: startswith_iff)
qed

lemma any_in_iff: "any_in ws t \<longleftrightarrow> (\<exists>w \<in> set ws. \<exists>ps ss. t = ps @ w @ ss)"
  by (simp add: any_in_def list_ex_iff py_in_iff)

lemma set_labels_of_table:
  "set (map fst (filter (\<lambda>(label, keywords). any_in keywords t) table)) =
   {label. \<exists>keywords keyword. (label, keywords) \<in> set table \<and> keyword \<in> set keywords
      \<and> (\<exists>ps ss. t = ps @ keyword @ ss)}"
proof -
  have "set (map fst (filter (\<lambda>(label, keywords). any_in keywords t) table)) =
    {label. \<exists>keywords. (label, keywords) \<in> set table \<and> any_in keywords t}"
    by force
  also have "\<dots> = {label. \<exists>keywords keyword. (label, keywords) \<in> set table \<and> keyword \<in> set keywords
      \<and> (\<exists>ps ss. t = ps @ keyword @ ss)}"
    unfolding any_in_iff by blast
  finally show ?thesis .
qed

lemma split_from_a: "split_from [] (str ''a '' @ t) = str ''a'' # split_from [] t"
  by (simp add: str_def isspace_def)

lemma length_split_words:
  "length (py_split (concat (replicate n (str ''a '')) @ t)) = n + length (py_split t)"
  unfolding py_split_def by (induction n) (simp_all add: split_from_a)

lemma py_in_suffix: "py_in w (t @ w)"
  unfolding py_in_iff by (metis append_Nil2)

lemma py_in_set: "py_in w t \<Longrightarrow> set w \<subseteq> set t"
  by (auto simp: py_in_iff)

section \<open>Classifiers\<close>

lemma distinct_labels_of_table:
  "distinct (map fst table) \<Longrightarrow> distinct (map fst (filter P table))"
  by (simp add: distinct_map_filter)

lemma detect_personality_traits_table:
  "detect_personality_traits text =
     map fst (filter (\<lambda>(label, keywords). any_in keywords (clean_text text)) trait_keywords)"
  by (simp add: detect_personality_traits_def trait_keywords_def Let_def)

text \<open>
  C7: each classifier of the console program (interests, personality traits) is a function of
  the text alone, and its result holds exactly the labels that have a keyword occurring
  as a substring of the normalized text, each label once. So a text with no keyword of any
  category gets no label, and a text with keywords of two categories gets both labels.
\<close>

theorem classifier_labels:
  "set (detect_interests text) =
     {label. \<exists>keywords keyword. (label, keywords) \<in> set interest_keywords
        \<and> keyword \<in> set keywords \<and> (\<exists>ps ss. clean_text text = ps @ keyword @ ss)}
   \<and> distinct (detect_interests text)
   \<and> set (detect_personality_traits text) =
     {label. \<exists>keywords keyword. (label, keywords) \<in> set trait_keywords
        \<and> keyword \<in> set keywords \<and> (\<exists>ps ss. clean_text text = ps @ keyword @ ss)}
   \<and> distinct (detect_personality_traits text)"
proof (intro conjI)
  show "set (detect_interests text) =
     {label. \<exists>keywords keyword. (label, keywords) \<in> set interest_keywords
        \<and> keyword \<in> set keywords \<and> (\<exists>ps ss. clean_text text = ps @ keyword @ ss)}"
    by (simp only: detect_interests_def Let_def set_labels_of_table)
  show "distinct (detect_interests text)"
    unfolding detect_interests_def Let_def
    by (rule distinct_labels_of_table) (simp add: interest_keywords_def)
  show "set (detect_personality_traits text) =
     {label. \<exists>keywords keyword. (label, keywords) \<in> set trait_keywords
        \<and> keyword \<in> set keywords \<and> (\<exists>ps ss. clean_text text = ps @ keyword @ ss)}"
    by (simp only: detect_personality_traits_table set_labels_of_table)
  show "distinct (detect_personality_traits text)"
    unfolding detect_personality_traits_table
    by (rule distinct_labels_of_table) (simp add: trait_keywords_def)
qed

lemma classifier_examples:
  "detect_interests (str ''Good morning, everyone!'') = []"
  "detect_personality_traits (str ''Good morning, everyone!'') = []"
  "detect_interests (str ''My Xbox runs Linux.'') = [''Technology'', ''Gaming'']"
  "detect_personality_traits (str ''LOL, any advice?'') = [''Humorous'', ''Helpful'']"
  by (simp_all add: detect_interests_def detect_personality_traits_def interest_keywords_def
      any_in_def clean_text_def str_def lower_def lower_cp_def isupper_def isword_def
      isalnum_def isspace_def)

theorem classifier_labels_witness:
  "detect_interests (str ''Good morning, everyone!'') = []
   \<and> detect_personality_traits (str ''Good morning, everyone!'') = []
   \<and> set (detect_interests (str ''My Xbox runs Linux.'')) = {''Technology'', ''Gaming''}
   \<and> distinct (detect_interests (str ''My Xbox runs Linux.''))
   \<and> set (detect_personality_traits (str ''LOL, any advice?'')) = {''Humorous'', ''Helpful''}
   \<and> distinct (detect_personality_traits (str ''LOL, any advice?''))"
  using classifier_labels [of "str ''My Xbox runs Linux.''"]
    classifier_labels [of "str ''LOL, any advice?''"]
  by (simp add: classifier_examples)

section \<open>Style labels\<close>

lemma set_a_words: "set (a_words n) \<subseteq> {97, 32}"
  by (induction n) (auto simp: a_words_def str_def)

lemma clean_text_append: "clean_text (s @ t) = clean_text s @ clean_text t"
  by (simp add: clean_text_def lower_def)

lemma clean_text_a_words: "clean_text (a_words n) = a_words n"
proof (induction n)
  case 0
  show ?case by (simp add: a_words_def clean_text_def lower_def)
next
  case (Suc n)
  have "clean_text (str ''a '') = str ''a ''"
    by (simp add: clean_text_def str_def lower_def lower_cp_def isupper_def isword_def
        isalnum_def isspace_def)
  with Suc show ?case
    by (simp add: a_words_def clean_text_append)
qed

lemma clean_text_long_text: "clean_text long_text = a_words 79"
proof -
  have "clean_text [128514] = []"
    by (simp add: clean_text_def lower_def lower_cp_def isupper_def isword_def
        isalnum_def isspace_def)
  then show ?thesis
    by (simp add: long_text_def clean_text_append clean_text_a_words)
qed

lemma not_in_a_words:
  assumes "c \<in> set w" and "c \<noteq> 97" and "c \<noteq> 32"
  shows "\<not> py_in w (a_words n)"
  using assms py_in_set [of w "a_words n"] set_a_words [of n] by auto

lemma no_emoji_a_words: "\<not> any_in emojis (a_words n)"
  by (simp add: any_in_def emojis_def not_in_a_words [of 128514] not_in_a_words [of 128522]
      not_in_a_words [of 10084])

lemma emoji_long_text: "any_in emojis long_text"
  by (simp add: any_in_def emojis_def long_text_def py_in_suffix)

lemma no_connective_a_words:
  "\<not> any_in [str ''however'', str ''therefore'', str ''moreover''] (a_words n)"
  "\<not> any_in [str ''however'', str ''therefore''] (a_words n)"
  by (simp_all add: any_in_def str_def not_in_a_words [of 104] not_in_a_words [of 116]
      not_in_a_words [of 109])

lemma words_a_words: "length (py_split (a_words n)) = n"
  using length_split_words [of n "[]"] by (simp add: a_words_def py_split_def)

lemma words_long_text: "length (py_split long_text) = 80"
  using length_split_words [of 79 "[128514]"]
  by (simp add: long_text_def a_words_def py_split_def isspace_def)

text \<open>
  C1, as stated, fails for the style analyzer of the dashboard program: a single text of 41
  words, which the claim labels \<^verbatim>\<open>Balanced and thoughtful\<close>, gets the label
  \<^verbatim>\<open>Straightforward\<close> there, and the batch of the claim, with an average of 80 words
  and 5 texts with an emoji, gets \<^verbatim>\<open>Detailed/analytical\<close>, under the key \<^verbatim>\<open>style\<close>.
\<close>

theorem style_rules_differ_in_dashboard:
  "analyze_writing_style_app batch_41 =
     Inr [(''avg_word_count'', PyFloat 41), (''emoji_use'', PyInt 0), (''formality'', PyInt 0),
          (''style'', PyStr ''Straightforward'')]
   \<and> analyze_writing_style_app batch_80_5 =
     Inr [(''avg_word_count'', PyFloat 80), (''emoji_use'', PyInt 5), (''formality'', PyInt 0),
          (''style'', PyStr ''Detailed/analytical'')]"
  by (simp add: analyze_writing_style_app_def batch_41_def batch_80_5_def truediv_def count_if_def
      words_a_words words_long_text no_emoji_a_words emoji_long_text clean_text_a_words
      clean_text_long_text no_connective_a_words)

text \<open>
  C1, amended: for every non-empty batch of texts the style analyzer of the console program
  returns one description label, chosen by the first rule that matches, in this order:
  average word count above 75, \<^verbatim>\<open>Detailed and analytical\<close>; above 40,
  \<^verbatim>\<open>Balanced and thoughtful\<close>; emoji usage above 3, \<^verbatim>\<open>Casual and expressive\<close>;
  formality score above 5, \<^verbatim>\<open>Formal and structured\<close>; otherwise
  \<^verbatim>\<open>Straightforward and concise\<close>. A batch with average 80 and emoji usage 5 is
  \<^verbatim>\<open>Detailed and analytical\<close>. The style analyzer of the dashboard program has the
  rules: average above 75, \<^verbatim>\<open>Detailed/analytical\<close>; emoji usage above 3,
  \<^verbatim>\<open>Casual/expressive\<close>; otherwise \<^verbatim>\<open>Straightforward\<close>.
\<close>

theorem style_description_rules:
  assumes "texts \<noteq> []"
  shows "\<exists>d d' avg emoji formality.
      analyze_writing_style texts = Inr d
    \<and> avg = of_int (sum_list (map (\<lambda>t. int (length (py_split t))) texts)) / of_int (int (length texts))
    \<and> emoji = count_if (\<lambda>t. any_in emojis t) texts
    \<and> formality = count_if (\<lambda>t. any_in [str ''however'', str ''therefore'', str ''moreover'']
                                      (clean_text t)) texts
    \<and> map_of d ''Average Word Count'' = Some (PyFloat avg)
    \<and> map_of d ''Emoji Usage'' = Some (PyInt emoji)
    \<and> map_of d ''Formality Score'' = Some (PyInt formality)
    \<and> map_of d ''Description'' =
        Some (PyStr (if avg > 75 then ''Detailed and analytical''
                     else if avg > 40 then ''Balanced and thoughtful''
                     else if emoji > 3 then ''Casual and expressive''
                     else if formality > 5 then ''Formal and structured''
                     else ''Straightforward and concise''))
    \<and> length (filter (\<lambda>kv. fst kv = ''Description'') d) = 1
    \<and> (avg = 80 \<and> emoji = 5 \<longrightarrow> map_of d ''Description'' = Some (PyStr ''Detailed and analytical''))
    \<and> analyze_writing_style_app texts = Inr d'
    \<and> map_of d' ''avg_word_count'' = Some (PyFloat avg)
    \<and> map_of d' ''emoji_use'' = Some (PyInt emoji)
    \<and> map_of d' ''style'' =
        Some (PyStr (if avg > 75 then ''Detailed/analytical''
                     else if emoji > 3 then ''Casual/expressive''
                     else ''Straightforward''))"
  using assms
  by (simp add: analyze_writing_style_def analyze_writing_style_app_def truediv_returns Let_def)

theorem style_description_rules_witness:
  "\<exists>d. analyze_writing_style batch_80_5 = Inr d
     \<and> map_of d ''Average Word Count'' = Some (PyFloat 80)
     \<and> map_of d ''Emoji Usage'' = Some (PyInt 5)
     \<and> map_of d ''Description'' = Some (PyStr ''Detailed and analytical'')"
proof -
  have n: "batch_80_5 \<noteq> []"
    by (simp add: batch_80_5_def)
  have a: "of_int (sum_list (map (\<lambda>t. int (length (py_split t))) batch_80_5))
             / of_int (int (length batch_80_5)) = (80 :: rat)"
    by (simp add: batch_80_5_def words_long_text)
  have e: "count_if (\<lambda>t. any_in emojis t) batch_80_5 = 5"
    by (simp add: batch_80_5_def count_if_def emoji_long_text)
  from style_description_rules [OF n] show ?thesis
    unfolding a e by auto
qed

section \<open>Scenario B\<close>

lemma clean_text_b:
  "clean_text text_b1 = str ''i think python is great however its slow''"
  "clean_text text_b2 = str ''lol thats hilarious''"
  by (simp_all add: text_b1_def text_b2_def clean_text_def str_def lower_def lower_cp_def
      isupper_def isword_def isalnum_def isspace_def)

lemma words_b:
  "length (py_split text_b1) = 8"
  "length (py_split text_b2) = 3"
  by (simp_all add: text_b1_def text_b2_def py_split_def str_def isspace_def)

lemma interests_b:
  "detect_interests text_b1 = [''Technology'']"
  "detect_interests text_b2 = []"
  by (simp_all add: detect_interests_def clean_text_b interest_keywords_def any_in_def str_def)

lemma traits_b:
  "detect_personality_traits text_b1 = [''Opinionated'', ''Curious'']"
  "detect_personality_traits text_b2 = [''Humorous'']"
  by (simp_all add: detect_personality_traits_def clean_text_b any_in_def str_def)

lemma style_b:
  "analyze_writing_style [text_b1, text_b2] =
     Inr [(''Average Word Count'', PyFloat (11 / 2)),
          (''Emoji Usage'', PyInt 0),
          (''Formality Score'', PyInt 1),
          (''Question Frequency'', PyInt 0),
          (''Exclamation Frequency'', PyInt 0),
          (''Description'', PyStr ''Straightforward and concise'')]"
proof -
  have e: "\<not> any_in emojis text_b1" "\<not> any_in emojis text_b2"
    by (simp_all add: any_in_def emojis_def text_b1_def text_b2_def str_def)
  have f: "any_in [str ''however'', str ''therefore'', str ''moreover''] (clean_text text_b1)"
    "\<not> any_in [str ''however'', str ''therefore'', str ''moreover''] (clean_text text_b2)"
    by (simp_all add: any_in_def clean_text_b str_def)
  have q: "\<not> py_in (str ''?'') text_b1" "\<not> py_in (str ''?'') text_b2"
    "\<not> py_in (str ''!'') text_b1" "\<not> py_in (str ''!'') text_b2"
    by (simp_all add: text_b1_def text_b2_def str_def)
  show ?thesis
    by (simp add: analyze_writing_style_def truediv_def count_if_def words_b e f q)
qed

text \<open>
  C3, as stated, fails: the second comment has three words, so the average is 11/2 and
  not 6, and the first comment holds \<^verbatim>\<open>how\<close> inside \<^verbatim>\<open>however\<close>, so the trait
  \<^verbatim>\<open>Curious\<close> is detected besides \<^verbatim>\<open>Opinionated\<close> and \<^verbatim>\<open>Humorous\<close>.
\<close>

theorem scenario_b_result:
  "generate_persona (only user_b) (str ''someone'') =
     Persona
       \<lparr>Username = str ''u/someone'',
        Account_Age = 1600000000,
        Writing_Style =
          [(''Average Word Count'', PyFloat (11 / 2)),
           (''Emoji Usage'', PyInt 0),
           (''Formality Score'', PyInt 1),
           (''Question Frequency'', PyInt 0),
           (''Exclamation Frequency'', PyInt 0),
           (''Description'', PyStr ''Straightforward and concise'')],
        Preferred_Subreddits = [(str ''test'', 1), (str ''other'', 1)],
        Interests_Hobbies = [(''Technology'', [str ''/r/test/b1''])],
        Personality_Traits =
          [(''Opinionated'', [str ''/r/test/b1'']),
           (''Curious'', [str ''/r/test/b1'']),
           (''Humorous'', [str ''/r/other/b2''])],
        Activity_Summary =
          \<lparr>Total_Comments = 2, Total_Posts = 0, Comment_Karma = 10, Post_Karma = 0,
           First_Seen = PyDatetime 1650000000\<rparr>,
        Citations_Comments = [str ''/r/test/b1'', str ''/r/other/b2''],
        Citations_Posts = []\<rparr>
   \<and> length (py_split text_b2) = 3
   \<and> (11 / 2 :: rat) \<noteq> 6"
  by (simp add: generate_persona_def attempt_def only_def user_b_def comment_b1_def comment_b2_def
      style_b first_seen_def analyze_comment_def interests_b traits_b incr_def append_at_def
      words_b str_def)

text \<open>
  C3, amended: for a user with exactly the two comments
  \<^verbatim>\<open>I think Python is great, however it's slow\<close> and \<^verbatim>\<open>lol that's hilarious\<close>, no
  submission and readable account metadata, \<^verbatim>\<open>generate_persona\<close> of the console program
  returns a persona with the interests \<^verbatim>\<open>Technology\<close>, the traits \<^verbatim>\<open>Opinionated\<close>,
  \<^verbatim>\<open>Curious\<close> and \<^verbatim>\<open>Humorous\<close>, the average word count (8 + 3) / 2 = 5.5 and the style
  description \<^verbatim>\<open>Straightforward and concise\<close>.
\<close>

theorem scenario_b_persona:
  assumes "reddit name = Inr user"
    and "comments_new user 100 = Inr [c1, c2]"
    and "c_body c1 = text_b1" and "c_body c2 = text_b2"
    and "submissions_new user 100 = Inr []"
    and "created_utc user = Inr created"
    and "comment_karma user = Inr ckarma"
    and "link_karma user = Inr lkarma"
  shows "\<exists>p. generate_persona reddit name = Persona p
    \<and> Interests_Hobbies p = [(''Technology'', [c_permalink c1])]
    \<and> Personality_Traits p =
        [(''Opinionated'', [c_permalink c1]), (''Curious'', [c_permalink c1]),
         (''Humorous'', [c_permalink c2])]
    \<and> map_of (Writing_Style p) ''Average Word Count'' = Some (PyFloat (11 / 2))
    \<and> map_of (Writing_Style p) ''Description'' = Some (PyStr ''Straightforward and concise'')"
proof -
  have s: "analyze_writing_style (map c_body [c1, c2] @ map p_title []) =
     Inr [(''Average Word Count'', PyFloat (11 / 2)),
          (''Emoji Usage'', PyInt 0),
          (''Formality Score'', PyInt 1),
          (''Question Frequency'', PyInt 0),
          (''Exclamation Frequency'', PyInt 0),
          (''Description'', PyStr ''Straightforward and concise'')]"
    using assms(3,4) by (simp add: style_b)
  have "[c1, c2] \<noteq> [] \<or> ([] :: submission list) \<noteq> []"
    by simp
  note g = generate_persona_after_fetch [of reddit name user "[c1, c2]" "[]", OF assms(1,2,5) this s]
  show ?thesis
    by (simp add: g attempt_Inr assms(3,4,6-8) analyze_comment_def interests_b traits_b
        incr_def append_at_def)
qed

theorem scenario_b_persona_witness:
  "\<exists>p. generate_persona (only user_b) (str ''someone'') = Persona p
    \<and> Interests_Hobbies p = [(''Technology'', [c_permalink comment_b1])]
    \<and> Personality_Traits p =
        [(''Opinionated'', [c_permalink comment_b1]), (''Curious'', [c_permalink comment_b1]),
         (''Humorous'', [c_permalink comment_b2])]
    \<and> map_of (Writing_Style p) ''Average Word Count'' = Some (PyFloat (11 / 2))
    \<and> map_of (Writing_Style p) ''Description'' = Some (PyStr ''Straightforward and concise'')"
  using scenario_b_persona [of "only user_b" "str ''someone''" user_b comment_b1 comment_b2
      1600000000 10 0]
  by (simp add: only_def user_b_def comment_b1_def comment_b2_def)

section \<open>Community tally and ranking\<close>

lemma map_of_incr:
  "map_of (incr d k) k' =
     (if k' = k then Some ((case map_of d k of None \<Rightarrow> 0 | Some n \<Rightarrow> n) + 1) else map_of d k')"
  by (simp add: incr_def update_conv')

lemma keys_incr: "fst ` set (incr d k) = insert k (fst ` set d)"
  by (simp add: incr_def dom_update)

lemma distinct_incr: "distinct (map fst d) \<Longrightarrow> distinct (map fst (incr d k))"
  by (simp add: incr_def distinct_update)

lemma keys_fold_incr: "fst ` set (fold (\<lambda>x d. incr d x) xs d) = set xs \<union> fst ` set d"
  by (induction xs arbitrary: d) (auto simp: keys_incr)

lemma distinct_fold_incr:
  "distinct (map fst d) \<Longrightarrow> distinct (map fst (fold (\<lambda>x d. incr d x) xs d))"
  by (induction xs arbitrary: d) (simp_all add: distinct_incr)

lemma map_of_fold_incr:
  "map_of (fold (\<lambda>x d. incr d x) xs d) k =
     (if k \<in> set xs
      then Some ((case map_of d k of None \<Rightarrow> 0 | Some n \<Rightarrow> n) + int (count_list xs k))
      else map_of d k)"
  by (induction xs arbitrary: d) (auto simp: map_of_incr split: option.splits)

lemma Counter_keys: "fst ` set (Counter xs) = set xs"
  by (simp add: Counter_def keys_fold_incr)

lemma Counter_distinct: "distinct (map fst (Counter xs))"
  by (simp add: Counter_def distinct_fold_incr)

lemma Counter_count: "k \<in> set xs \<Longrightarrow> map_of (Counter xs) k = Some (int (count_list xs k))"
  by (simp add: Counter_def map_of_fold_incr)

lemma sorted_reverse_descending: "sorted_wrt (\<lambda>a b. snd b \<le> snd a) (sorted_reverse d)"
proof -
  have "sorted (map snd (sort_key snd (rev d)))"
    by (rule sorted_sort_key)
  then have "sorted_wrt (\<lambda>a b. snd a \<le> snd b) (sort_key snd (rev d))"
    by (simp add: sorted_map)
  then show ?thesis
    by (simp add: sorted_reverse_def sorted_wrt_rev)
qed

lemma mset_sorted_reverse: "mset (sorted_reverse d) = mset d"
  by (simp add: sorted_reverse_def)

lemma two_keys:
  assumes "distinct (map fst d)" and "fst ` set d = {a, b}" and "a \<noteq> b"
    and "map_of d a = Some x" and "map_of d b = Some y"
  shows "d = [(a, x), (b, y)] \<or> d = [(b, y), (a, x)]"
proof -
  from assms(1,2,3) have "length d = 2"
    using distinct_card [of "map fst d"] by simp
  then obtain p q where d: "d = [p, q]"
    by (cases d; cases "tl d") auto
  with assms show ?thesis
    by (cases p; cases q) (auto simp: doubleton_eq_iff split: if_splits)
qed

lemma sorted_reverse_two:
  "sorted_reverse [(a, 3), (b, 1)] = [(a, 3), (b, 1)]"
  "sorted_reverse [(b, 1), (a, 3)] = [(a, 3), (b, 1)]"
  by (simp_all add: sorted_reverse_def)

lemma Counter_test_other:
  assumes "mset subs = {#str ''test'', str ''test'', str ''test'', str ''other''#}"
  shows "sorted_reverse (Counter subs) = [(str ''test'', 3), (str ''other'', 1)]"
proof -
  have ne: "str ''test'' \<noteq> str ''other''"
    by (simp add: str_def)
  from assms have s: "set subs = {str ''test'', str ''other''}"
    using set_mset_mset [of subs] by simp
  from assms ne have c: "count_list subs (str ''test'') = 3" "count_list subs (str ''other'') = 1"
    using count_mset [of subs] by (simp_all flip: count_mset)
  have "Counter subs = [(str ''test'', 3), (str ''other'', 1)]
      \<or> Counter subs = [(str ''other'', 1), (str ''test'', 3)]"
    by (rule two_keys) (simp_all add: Counter_distinct Counter_keys Counter_count s c ne)
  then show ?thesis
    by (auto simp: sorted_reverse_two)
qed

lemma subreddits_fold_interests:
  "Preferred_Subreddits (fold (\<lambda>l p. p\<lparr>Interests_Hobbies := f l p\<rparr>) ls p) = Preferred_Subreddits p"
  by (induction ls arbitrary: p) simp_all

lemma subreddits_fold_traits:
  "Preferred_Subreddits (fold (\<lambda>l p. p\<lparr>Personality_Traits := f l p\<rparr>) ls p) = Preferred_Subreddits p"
  by (induction ls arbitrary: p) simp_all

lemma subreddits_analyze_comment:
  "Preferred_Subreddits (analyze_comment c p) = incr (Preferred_Subreddits p) (c_subreddit c)"
  by (simp add: analyze_comment_def Let_def subreddits_fold_interests subreddits_fold_traits)

lemma subreddits_fold_analyze_comment:
  "Preferred_Subreddits (fold analyze_comment cs p) =
     fold (\<lambda>x d. incr d x) (map c_subreddit cs) (Preferred_Subreddits p)"
  by (induction cs arbitrary: p) (simp_all add: subreddits_analyze_comment)

lemma attempt_Persona: "attempt r k = Persona p \<longleftrightarrow> (\<exists>x. r = Inr x \<and> k x = Persona p)"
  by (cases r) (simp_all add: attempt_def)

lemma generate_persona_subreddits:
  assumes "reddit name = Inr user" and "comments_new user 100 = Inr cs"
    and "generate_persona reddit name = Persona p"
  shows "Preferred_Subreddits p = Counter (map c_subreddit cs)"
  using assms
  by (auto simp: generate_persona_def attempt_Persona Let_def Counter_def
      subreddits_fold_analyze_comment split: if_splits)

lemma generate_persona_app_subreddits:
  assumes "reddit name = Inr user" and "comments_new user 100 = Inr cs"
    and "submissions_new user 100 = Inr ps"
    and "generate_persona_app reddit name = Persona q"
  shows "subreddit_activity q = most_common 10 (Counter (map c_subreddit cs @ map p_subreddit ps))"
  using assms
  by (auto simp: generate_persona_app_def attempt_Persona Let_def split: if_splits)

text \<open>
  C9: the community ranking of the report is in descending order of interaction count:
  \<^verbatim>\<open>top_subs\<close> of the console report and the \<^verbatim>\<open>subreddit_activity\<close> of the dashboard
  are the first five and the first ten items of the tally sorted by count, largest first.
  For three comments in \<^verbatim>\<open>test\<close> and one in \<^verbatim>\<open>other\<close>, in any order, the list is
  \<^verbatim>\<open>[("test", 3), ("other", 1)]\<close>.
\<close>

theorem ranking_descending:
  "sorted_wrt (\<lambda>a b. snd b \<le> snd a) (top_subs persona)
   \<and> sorted_wrt (\<lambda>a b. snd b \<le> snd a) (most_common n d)
   \<and> mset (sorted_reverse d) = mset d
   \<and> (reddit name = Inr user \<and> comments_new user 100 = Inr cs
        \<and> generate_persona reddit name = Persona p
        \<and> mset (map c_subreddit cs) = {#str ''test'', str ''test'', str ''test'', str ''other''#}
      \<longrightarrow> top_subs p = [(str ''test'', 3), (str ''other'', 1)])
   \<and> (reddit name = Inr user \<and> comments_new user 100 = Inr cs
        \<and> submissions_new user 100 = Inr ps
        \<and> generate_persona_app reddit name = Persona q
        \<and> mset (map c_subreddit cs @ map p_subreddit ps)
            = {#str ''test'', str ''test'', str ''test'', str ''other''#}
      \<longrightarrow> subreddit_activity q = [(str ''test'', 3), (str ''other'', 1)])"
proof (intro conjI impI; (elim conjE)?)
  show "sorted_wrt (\<lambda>a b. snd b \<le> snd a) (top_subs persona)"
    unfolding top_subs_def by (intro sorted_wrt_take sorted_reverse_descending)
  show "sorted_wrt (\<lambda>a b. snd b \<le> snd a) (most_common n d)"
    unfolding most_common_def by (intro sorted_wrt_take sorted_reverse_descending)
  show "mset (sorted_reverse d) = mset d"
    by (rule mset_sorted_reverse)
next
  assume "reddit name = Inr user" "comments_new user 100 = Inr cs"
    "generate_persona reddit name = Persona p"
    and m: "mset (map c_subreddit cs) = {#str ''test'', str ''test'', str ''test'', str ''other''#}"
  then have "Preferred_Subreddits p = Counter (map c_subreddit cs)"
    by (simp add: generate_persona_subreddits)
  then show "top_subs p = [(str ''test'', 3), (str ''other'', 1)]"
    by (simp add: top_subs_def Counter_test_other [OF m])
next
  assume "reddit name = Inr user" "comments_new user 100 = Inr cs"
    "submissions_new user 100 = Inr ps" "generate_persona_app reddit name = Persona q"
    and m: "mset (map c_subreddit cs @ map p_subreddit ps)
            = {#str ''test'', str ''test'', str ''test'', str ''other''#}"
  then have "subreddit_activity q = most_common 10 (Counter (map c_subreddit cs @ map p_subreddit ps))"
    by (simp add: generate_persona_app_subreddits)
  then show "subreddit_activity q = [(str ''test'', 3), (str ''other'', 1)]"
    by (simp add: most_common_def Counter_test_other [OF m])
qed

lemma generate_persona_returns:
  assumes "reddit name = Inr user"
    and "comments_new user 100 = Inr cs"
    and "submissions_new user 100 = Inr ps"
    and "cs \<noteq> [] \<or> ps \<noteq> []"
    and "created_utc user = Inr created"
    and "comment_karma user = Inr ckarma"
    and "link_karma user = Inr lkarma"
  shows "\<exists>p. generate_persona reddit name = Persona p"
proof -
  from assms(4) obtain d where d: "analyze_writing_style (map c_body cs @ map p_title ps) = Inr d"
    using analyze_writing_style_returns [of "map c_body cs @ map p_title ps"] by auto
  show ?thesis
    by (simp add: generate_persona_after_fetch [of reddit name user cs ps d, OF assms(1-4) d]
        attempt_Inr assms(5-7))
qed

theorem ranking_descending_witness:
  "\<exists>p. generate_persona (only user_c) (str ''someone'') = Persona p
     \<and> Preferred_Subreddits p = [(str ''other'', 1), (str ''test'', 3)]
     \<and> top_subs p = [(str ''test'', 3), (str ''other'', 1)]"
proof -
  let ?cs = "[comment_in (str ''other''), comment_in (str ''test''),
              comment_in (str ''test''), comment_in (str ''test'')]"
  have r: "only user_c (str ''someone'') = Inr user_c"
    by (simp add: only_def)
  have c: "comments_new user_c 100 = Inr ?cs"
    by (simp add: user_c_def)
  obtain p where p: "generate_persona (only user_c) (str ''someone'') = Persona p"
    using generate_persona_returns [of "only user_c" "str ''someone''" user_c ?cs "[]" 1600000000 4 0]
    by (auto simp: only_def user_c_def)
  have m: "mset (map c_subreddit ?cs) = {#str ''test'', str ''test'', str ''test'', str ''other''#}"
    by (simp add: comment_in_def)
  have t: "top_subs p = [(str ''test'', 3), (str ''other'', 1)]"
    using ranking_descending [of p 5 "[]" "only user_c" "str ''someone''" user_c ?cs p] r c p m
    by blast
  have "Preferred_Subreddits p = [(str ''other'', 1), (str ''test'', 3)]"
    using generate_persona_subreddits [OF r c p]
    by (simp add: Counter_def incr_def comment_in_def str_def)
  with p t show ?thesis
    by blast
qed

end
